theory Spec2Isabelle
  imports Main "HOL-Library.Sublist"
begin

section \<open>Call screening pipeline (call\_screen\_openai\_tts.py)\<close>

text \<open>
  A shallow embedding of the call-screening prototype. Python \<open>str\<close> is \<open>string\<close>,
  \<open>Optional[str]\<close> is \<open>string option\<close>, Python's unbounded \<open>int\<close> is \<open>int\<close>.
  Everything the program does beyond computing a value is explicit: exceptions are
  the left summand of a result, and console output, files, external calls and
  allocated objects live in a \<open>world\<close> record that every call of a function of the
  program takes and returns. The services and library routines the program calls but does not
  define (the OpenAI client, \<open>json.loads\<close>, \<open>platform.system\<close>, \<open>pathlib\<close>,
  the process launcher) are the fields of an \<open>env\<close> record.
\<close>

subsection \<open>Python strings\<close>

definition nl :: string where
  \<open>nl = [CHR 0x0A]\<close>

text \<open>\<open>sep.join(xs)\<close>\<close>

fun join :: "string \<Rightarrow> string list \<Rightarrow> string" where
  "join sep [] = []"
| "join sep [x] = x"
| "join sep (x # y # ys) = x @ sep @ join sep (y # ys)"

text \<open>
  The decimal text of an integer: digits, most significant first, a leading minus
  sign for a negative number. This is what \<open>str(n)\<close> and an f-string field \<open>{n}\<close>
  produce when they produce anything; \<open>format_int\<close> below adds the case where the
  conversion raises.
\<close>

definition digit_char :: "nat \<Rightarrow> char" where
  "digit_char d = char_of (48 + d)"

function str_nat :: "nat \<Rightarrow> string" where
  "str_nat n = (if n < 10 then [digit_char n] else str_nat (n div 10) @ [digit_char (n mod 10)])"
  by pat_completeness auto
termination
  by (relation "measure id") auto

definition str_int :: "int \<Rightarrow> string" where
  "str_int i = (if i < 0 then CHR ''-'' # str_nat (nat (- i)) else str_nat (nat i))"

text \<open>\<open>x or d\<close> for an optional string \<open>x\<close>: \<open>None\<close> and the empty string are falsy.\<close>

definition str_or :: "string option \<Rightarrow> string \<Rightarrow> string" where
  "str_or x d = (case x of None \<Rightarrow> d | Some s \<Rightarrow> (if s = [] then d else s))"

subsection \<open>Prompt catalog\<close>

definition BASE_INSTRUCTIONS :: string where
  \<open>BASE_INSTRUCTIONS = join nl [
    '''',
    ''You are an AI phone call screener protecting an elderly user from scams.'',
    '''',
    ''General behaviour:'',
    ''- The user is a 79 years old man and may be vulnerable to pressure, urgency and confusion.'',
    ''- You NEVER directly connect the caller to the user. You only *recommend* what to do.'',
    ''- Always be cautious if the caller asks for money, bank details, passwords, codes,'',
    ''  remote access to the user's computer/phone, or personal information that is not'',
    ''  strictly necessary.'',
    ''- Speak clearly and simply. Avoid technical jargon.'',
    '''',
    ''Your outputs will be used to:'',
    ''1) Decide whether the call should reach the user.'',
    ''2) Generate a short spoken response back to the caller via Text-To-Speech.'',
    '''']\<close>

definition SECURITY_RULES :: "string list" where
  \<open>SECURITY_RULES = [
    ''The user is a 79-year-old man. Treat all unexpected calls with extra caution.'',
    ''If the caller mentions job sites such as Indeed or LinkedIn, treat this as suspicious unless there is strong evidence that the user is actively expecting that call.'',
    ''If the caller asks for bank account details, credit/debit card numbers, PINs, one-time codes, or passwords, classify the call as HIGH RISK.'',
    ''If the caller pressures the user with urgency (e.g., 'act now', 'you will be arrested', 'your account will be closed today'), this is a strong scam indicator.'',
    ''If the caller asks the user to install remote access software, classify as HIGH RISK.'',
    ''If the caller claims to be from a government body, bank, or tech company but cannot provide clear verifiable information, treat as suspicious.'']\<close>

subsection \<open>Call context\<close>

record CallContext =
  caller_id :: "string option"
  call_type :: string
  user_age :: int

text \<open>
  The generated constructor: an omitted argument (\<open>None\<close> here) takes the field's
  default. An omitted \<open>caller_id\<close> and an explicit \<open>None\<close> are the same value.
\<close>

definition new_CallContext :: "string option \<Rightarrow> string option \<Rightarrow> int option \<Rightarrow> CallContext" where
  "new_CallContext cid ctype age =
     \<lparr>caller_id = cid,
      call_type = (case ctype of None \<Rightarrow> ''incoming'' | Some t \<Rightarrow> t),
      user_age = (case age of None \<Rightarrow> 79 | Some a \<Rightarrow> a)\<rparr>"

subsection \<open>Prompt builder\<close>

text \<open>
  The f-string of \<open>build_ai_input\<close>, one list element per source line. The literal
  opens and closes with a line break, hence the empty first and last elements.
\<close>

definition build_ai_input :: "string \<Rightarrow> CallContext \<Rightarrow> string" where
  \<open>build_ai_input mock_call_text context =
    (let rules_text = join nl (map (\<lambda>rule. ''- '' @ rule) SECURITY_RULES) in
     join nl [
       '''',
       ''You are screening a phone call for an elderly user.'',
       '''',
       ''User profile:'',
       ''- Age: '' @ str_int (user_age context) @ '' years old'',
       ''- Name: Micheal'',
       '''',
       ''Call context:'',
       ''- Caller ID: '' @ str_or (caller_id context) ''Unknown'',
       ''- Call type: '' @ call_type context,
       '''',
       ''Security rules you MUST follow:'',
       rules_text,
       '''',
       ''Below is the transcript of what the CALLER has said so far.'',
       ''Treat this as if you are listening to a live phone call.'',
       '''',
       ''CALLER TRANSCRIPT:'',
       ''"""'' @ mock_call_text @ ''"""'',
       '''',
       ''Your tasks:'',
       ''1. Classify the call as one of: "safe", "suspicious", or "likely_scam".'',
       ''2. Briefly explain the main reasons for your classification.'',
       ''3. List any specific red flags you noticed (if any).'',
       ''4. Decide what to do next for the user. Choose one:'',
       ''   - "block_call"'',
       ''   - "warn_and_block"'',
       ''   - "allow_through"'',
       ''   - "ask_more_questions"'',
       ''5. Write a short, polite sentence that could be spoken back to the caller by a TTS'',
       ''   system (e.g., "We cannot proceed with this call. Goodbye.").'',
       '''',
       ''Respond in **JSON only** with the following keys:'',
       ''- classification'',
       ''- reasoning'',
       ''- red_flags'',
       ''- action_for_user'',
       ''- spoken_response_to_caller'',
       ''''])\<close>

subsection \<open>Values, exceptions and the world\<close>

text \<open>
  What \<open>json.loads\<close> can return. The finite floating-point numbers are left
  uninterpreted: the program never computes with them. The three other values of
  a \<open>float\<close> are what the decoder returns for the texts \<open>NaN\<close>, \<open>Infinity\<close> and
  \<open>-Infinity\<close>. A JSON object is a Python \<open>dict\<close> with string keys, hence a map.
\<close>

typedecl finite_double

datatype py_float = Float_finite finite_double | Float_nan | Float_inf | Float_neg_inf

datatype json =
    JNull
  | JBool bool
  | JInt int
  | JFloat py_float
  | JStr string
  | JArr "json list"
  | JObj "string \<Rightarrow> json option"

text \<open>
  The exceptions that can cross the program. \<open>AttributeError\<close> is raised by the
  program's own attribute access. \<open>JSONDecodeError\<close> is the decoder's rejection
  of a text; the decoder and the integer conversion also raise a plain
  \<open>ValueError\<close> (an integer beyond the interpreter's digit limit), and the decoder
  a \<open>RecursionError\<close> (nesting too deep). Whatever a service or the operating
  system raises is carried along under its name.
\<close>

datatype exn = AttributeError | JSONDecodeError | ValueError | RecursionError | External string

type_synonym path = string
type_synonym bytes = "char list"

text \<open>Calls that leave the process, with their arguments.\<close>

datatype call =
    Responses_create string string string
      \<comment> \<open>\<open>client.responses.create(model, instructions, input)\<close>\<close>
  | Speech_create string string json string
      \<comment> \<open>\<open>client.audio.speech...create(model, voice, input, instructions)\<close>\<close>
  | Subprocess_run "string list"
      \<comment> \<open>\<open>subprocess.run(argv, check=False)\<close>\<close>
  | Os_startfile string
      \<comment> \<open>\<open>os.startfile(path)\<close>\<close>

text \<open>One argument of a \<open>print\<close> call: a string, or a value printed as it is.\<close>

datatype printed = PStr string | PVal json

record world =
  console :: "printed list list"  \<comment> \<open>one entry per \<open>print\<close> call, oldest first\<close>
  files :: "path \<rightharpoonup> bytes"
  calls :: "call list"              \<comment> \<open>external calls issued, oldest first\<close>
  objs :: "CallContext list"       \<comment> \<open>allocated \<open>CallContext\<close> objects; the index is the reference\<close>

text \<open>
  The outcome of the streaming speech request together with \<open>stream_to_file\<close>:
  the audio written in full, or an exception that may leave a partial file.
\<close>

datatype tts_outcome = Streamed bytes | Failed exn "bytes option"

record env =
  responses_create :: "string \<Rightarrow> string \<Rightarrow> string \<Rightarrow> exn + string"
    \<comment> \<open>the classification service: \<open>output_text\<close> or the exception raised\<close>
  json_loads :: "string \<Rightarrow> exn + json"
    \<comment> \<open>\<open>json.loads\<close>: the decoded value or the exception raised\<close>
  speech_stream :: "json \<Rightarrow> path \<Rightarrow> tts_outcome"
    \<comment> \<open>the speech service, given the input and the destination\<close>
  platform_system :: string
    \<comment> \<open>\<open>platform.system()\<close>\<close>
  module_dir :: path
    \<comment> \<open>\<open>Path(__file__).parent\<close>\<close>
  joinpath :: "path \<Rightarrow> string \<Rightarrow> path"
    \<comment> \<open>the \<open>/\<close> operator of \<open>pathlib\<close>\<close>
  launch :: "call \<Rightarrow> exn option"
    \<comment> \<open>the exception a process launch raises, if any\<close>

type_synonym 'a result = "(exn + 'a) \<times> world"

definition print :: "printed list \<Rightarrow> world \<Rightarrow> world" where
  "print args w = w\<lparr>console := console w @ [args]\<rparr>"

definition issue :: "call \<Rightarrow> world \<Rightarrow> world" where
  "issue c w = w\<lparr>calls := calls w @ [c]\<rparr>"

subsection \<open>Calling the prompt builder\<close>

text \<open>
  The interpreter refuses to convert an integer of more decimal digits than
  \<open>sys.int_info.default_max_str_digits\<close> to text and raises \<open>ValueError\<close>; the
  sign is not counted. The program never changes the limit.
\<close>

definition INT_MAX_STR_DIGITS :: nat where
  "INT_MAX_STR_DIGITS = 4300"

definition int_digits :: "int \<Rightarrow> nat" where
  "int_digits i = length (str_nat (nat \<bar>i\<bar>))"

definition format_int :: "int \<Rightarrow> exn + string" where
  "format_int i = (if INT_MAX_STR_DIGITS < int_digits i then Inl ValueError else Inr (str_int i))"

text \<open>
  A call of \<open>build_ai_input\<close>: the only operation of its body that can raise is
  the conversion of \<open>context.user_age\<close> in the f-string; when it does not, the
  call returns the text above. The body prints nothing, calls no service, and
  assigns nothing outside its locals: the world is handed back as it came.
\<close>

definition build_ai_input_call :: "world \<Rightarrow> string \<Rightarrow> CallContext \<Rightarrow> string result" where
  "build_ai_input_call w mock_call_text context =
     (case format_int (user_age context) of
        Inl x \<Rightarrow> (Inl x, w)
      | Inr age \<Rightarrow> (Inr (build_ai_input mock_call_text context), w))"

subsection \<open>The classification request\<close>

definition send_to_openai :: "env \<Rightarrow> world \<Rightarrow> string \<Rightarrow> string result" where
  "send_to_openai e w prompt =
     (responses_create e ''gpt-5.1'' BASE_INSTRUCTIONS prompt,
      issue (Responses_create ''gpt-5.1'' BASE_INSTRUCTIONS prompt) w)"

subsection \<open>Speech synthesis\<close>

definition DEFAULT_FILENAME :: string where
  "DEFAULT_FILENAME = ''call_response.mp3''"

text \<open>The second argument is the optional \<open>filename\<close>: \<open>None\<close> when the caller omits it.\<close>

definition speak_with_openai :: "env \<Rightarrow> world \<Rightarrow> json \<Rightarrow> string option \<Rightarrow> path result" where
  "speak_with_openai e w text filename_arg =
     (let filename = (case filename_arg of None \<Rightarrow> DEFAULT_FILENAME | Some f \<Rightarrow> f);
          audio_path = joinpath e (module_dir e) filename;
          w1 = issue (Speech_create ''gpt-4o-mini-tts'' ''alloy'' text
                        ''Speak clearly, calmly, and politely.'') w
      in case speech_stream e text audio_path of
           Streamed audio \<Rightarrow> (Inr audio_path, w1\<lparr>files := (files w1)(audio_path \<mapsto> audio)\<rparr>)
         | Failed x None \<Rightarrow> (Inl x, w1)
         | Failed x (Some part) \<Rightarrow> (Inl x, w1\<lparr>files := (files w1)(audio_path \<mapsto> part)\<rparr>))"

subsection \<open>Playback\<close>

definition invoke :: "env \<Rightarrow> world \<Rightarrow> call \<Rightarrow> unit result" where
  "invoke e w c = ((case launch e c of None \<Rightarrow> Inr () | Some x \<Rightarrow> Inl x), issue c w)"

definition play_audio :: "env \<Rightarrow> world \<Rightarrow> path \<Rightarrow> unit result" where
  "play_audio e w audio_path =
     (let system = platform_system e in
      if system = ''Darwin'' then invoke e w (Subprocess_run [''afplay'', audio_path])
      else if system = ''Windows'' then invoke e w (Os_startfile audio_path)
      else invoke e w (Subprocess_run [''xdg-open'', audio_path]))"

subsection \<open>The pipeline\<close>

definition SPOKEN_KEY :: string where
  "SPOKEN_KEY = ''spoken_response_to_caller''"

definition FALLBACK_LINE :: string where
  "FALLBACK_LINE = ''We cannot proceed with this call. Goodbye.''"

text \<open>
  The \<open>try\<close>/\<open>except\<close> around \<open>json.loads\<close>: the handler catches
  \<open>JSONDecodeError\<close> and nothing else, so any other exception of the decoder
  leaves the function.
\<close>

definition parse_response :: "env \<Rightarrow> world \<Rightarrow> string \<Rightarrow> json result" where
  "parse_response e w ai_response_text =
     (case json_loads e ai_response_text of
        Inr result \<Rightarrow> (Inr result, w)
      | Inl x \<Rightarrow>
          if x = JSONDecodeError
          then (Inr (JObj (Map.empty(SPOKEN_KEY \<mapsto> JStr FALLBACK_LINE))),
                print [PStr ''Falling back to a generic spoken line.'']
                  (print [PStr ''ERROR: Could not parse JSON from model response.''] w))
          else (Inl x, w))"

text \<open>
  \<open>result.get(key, default)\<close>: the lookup of \<open>dict\<close>. No other value that
  \<open>json.loads\<close> returns has a \<open>get\<close> attribute.
\<close>

definition py_get :: "json \<Rightarrow> string \<Rightarrow> json \<Rightarrow> exn + json" where
  "py_get result key dflt =
     (case result of
        JObj d \<Rightarrow> Inr (case d key of Some v \<Rightarrow> v | None \<Rightarrow> dflt)
      | _ \<Rightarrow> Inl AttributeError)"

text \<open>
  \<open>screen_mock_call\<close>. The optional \<open>call_type\<close> is \<open>None\<close> when omitted. The
  context object is allocated in the store and read back through its reference.
  An exception of any step ends the run.
\<close>

definition screen_mock_call :: "env \<Rightarrow> world \<Rightarrow> string \<Rightarrow> string option \<Rightarrow> string option \<Rightarrow> unit result" where
  "screen_mock_call e w mock_call_text cid call_type_arg =
     (let ctype = (case call_type_arg of None \<Rightarrow> ''incoming'' | Some t \<Rightarrow> t);
          context = length (objs w);
          w0 = w\<lparr>objs := objs w @ [new_CallContext cid (Some ctype) None]\<rparr>
      in case build_ai_input_call w0 mock_call_text (objs w0 ! context) of
           (Inl x, w1) \<Rightarrow> (Inl x, w1)
         | (Inr prompt, w1) \<Rightarrow>
             (case send_to_openai e w1 prompt of
                (Inl x, w2) \<Rightarrow> (Inl x, w2)
              | (Inr ai_response_text, w2) \<Rightarrow>
                  (let w3 = print [PStr (nl @ ''===== RAW AI RESPONSE TEXT ====='')] w2;
                       w4 = print [PStr ai_response_text] w3;
                       w5 = print [PStr (''================================'' @ nl)] w4
                   in case parse_response e w5 ai_response_text of
                        (Inl x, w6) \<Rightarrow> (Inl x, w6)
                      | (Inr result, w6) \<Rightarrow>
                          (case py_get result SPOKEN_KEY (JStr FALLBACK_LINE) of
                             Inl x \<Rightarrow> (Inl x, w6)
                           | Inr spoken_line \<Rightarrow>
                               (let w7 = print [PStr ''AI wants to say to the caller:'',
                                                PVal spoken_line] w6
                                in case speak_with_openai e w7 spoken_line None of
                                     (Inl x, w8) \<Rightarrow> (Inl x, w8)
                                   | (Inr audio_path, w8) \<Rightarrow>
                                       play_audio e
                                         (print [PStr (''Audio saved to: '' @ audio_path)] w8)
                                         audio_path)))))"

subsection \<open>Observing a run\<close>

text \<open>The inputs of the speech requests among a list of external calls, in order.\<close>

fun speech_input :: "call \<Rightarrow> json option" where
  "speech_input (Speech_create m v i ins) = Some i"
| "speech_input (Responses_create m ins p) = None"
| "speech_input (Subprocess_run argv) = None"
| "speech_input (Os_startfile p) = None"

definition speech_inputs :: "call list \<Rightarrow> json list" where
  "speech_inputs cs = List.map_filter speech_input cs"

text \<open>The context that \<open>screen_mock_call\<close> constructs from its arguments.\<close>

definition screened_context :: "string option \<Rightarrow> string option \<Rightarrow> CallContext" where
  "screened_context cid call_type_arg =
     new_CallContext cid (Some (case call_type_arg of None \<Rightarrow> ''incoming'' | Some t \<Rightarrow> t)) None"

subsection \<open>JSON texts\<close>




subsection \<open>A deterministic stand-in environment\<close>

text \<open>
  Stand-ins for the services, used to run the pipeline on concrete inputs: the
  classification service answers every prompt with a fixed reply, the decoder
  knows the five texts below and rejects everything else with its decode error,
  the speech service delivers a fixed header followed by the text it was given,
  and every launch succeeds. On the five texts the decoder agrees with
  \<open>json.loads\<close>, which accepts \<open>NaN\<close> although it is not JSON.
\<close>

definition stub_loads :: "string \<Rightarrow> exn + json" where
  \<open>stub_loads s =
     (if s = ''{"spoken_response_to_caller": "Please call back later."}''
        then Inr (JObj (Map.empty(''spoken_response_to_caller'' \<mapsto> JStr ''Please call back later.'')))
      else if s = ''{"classification": "safe"}''
        then Inr (JObj (Map.empty(''classification'' \<mapsto> JStr ''safe'')))
      else if s = ''[]'' then Inr (JArr [])
      else if s = ''"hello"'' then Inr (JStr ''hello'')
      else if s = ''NaN'' then Inr (JFloat Float_nan)
      else Inl JSONDecodeError)\<close>

definition stub_env :: "string \<Rightarrow> string \<Rightarrow> env" where
  "stub_env reply os =
     \<lparr>responses_create = (\<lambda>model instructions prompt. Inr reply),
      json_loads = stub_loads,
      speech_stream = (\<lambda>input dest. Streamed (case input of JStr s \<Rightarrow> ''ID3'' @ s | _ \<Rightarrow> ''ID3'')),
      platform_system = os,
      module_dir = ''/srv/screener'',
      joinpath = (\<lambda>dir name. dir @ ''/'' @ name),
      launch = (\<lambda>c. None)\<rparr>"

definition empty_world :: world where
  "empty_world = \<lparr>console = [], files = Map.empty, calls = [], objs = []\<rparr>"

section \<open>Properties\<close>

subsection \<open>Joining lines\<close>

lemma sublist_chain: "sublist a b \<Longrightarrow> sublist b c \<Longrightarrow> sublist a c"
  by (rule sublist_order.order_trans)

lemma sublist_join: "x \<in> set xs \<Longrightarrow> sublist x (join sep xs)"
proof (induction sep xs rule: join.induct)
  case (1 sep)
  then show ?case by simp
next
  case (2 sep y)
  then show ?case by simp
next
  case (3 sep y z zs)
  show ?case
  proof (cases "x = y")
    case True
    then show ?thesis by simp
  next
    case False
    with 3 have "sublist x (join sep (z # zs))" by simp
    then obtain ps ss where "join sep (z # zs) = ps @ x @ ss"
      by (auto simp: sublist_def)
    then have "join sep (y # z # zs) = (y @ sep @ ps) @ x @ ss" by simp
    then show ?thesis unfolding sublist_def by blast
  qed
qed

lemma join_append:
  "xs \<noteq> [] \<Longrightarrow> ys \<noteq> [] \<Longrightarrow> join sep (xs @ ys) = join sep xs @ sep @ join sep ys"
proof (induction sep xs rule: join.induct)
  case (1 sep)
  then show ?case by simp
next
  case (2 sep x)
  then show ?case by (cases ys) simp_all
next
  case (3 sep x y zs)
  then show ?case by simp
qed

lemma join_split:
  assumes "pre \<noteq> []" and "post \<noteq> []"
  shows "join sep (pre @ x # post) = join sep pre @ sep @ x @ sep @ join sep post"
proof -
  have "join sep (pre @ [x] @ post) = join sep pre @ sep @ join sep ([x] @ post)"
    using assms by (intro join_append) simp_all
  also have "join sep ([x] @ post) = join sep [x] @ sep @ join sep post"
    using assms by (intro join_append) simp_all
  finally show ?thesis by simp
qed

text \<open>A line that is neither the first nor the last sits between two separators.\<close>

lemma join_nth:
  assumes "0 < i" and "Suc i < length xs"
  shows "join sep xs = join sep (take i xs) @ sep @ xs ! i @ sep @ join sep (drop (Suc i) xs)"
proof -
  have "xs = take i xs @ xs ! i # drop (Suc i) xs"
    using assms by (intro id_take_nth_drop) simp
  moreover have "take i xs \<noteq> []" and "drop (Suc i) xs \<noteq> []"
    using assms by auto
  ultimately show ?thesis
    using join_split[of "take i xs" "drop (Suc i) xs" sep "xs ! i"] by simp
qed

lemma line_in_join:
  assumes "0 < i" and "Suc i < length xs" and "xs ! i = x"
  shows "sublist (sep @ x @ sep) (join sep xs)"
proof -
  have "join sep xs = join sep (take i xs) @ (sep @ x @ sep) @ join sep (drop (Suc i) xs)"
    using join_nth[OF assms(1,2), of sep] assms(3) by simp
  then show ?thesis unfolding sublist_def by blast
qed

subsection \<open>The prompt\<close>

lemma transcript_line_in_prompt:
  "sublist (''\"\"\"'' @ t @ ''\"\"\"'') (build_ai_input t c)"
  unfolding build_ai_input_def Let_def
  by (rule sublist_join) (simp only: list.set insert_iff simp_thms)

lemma rules_text_in_prompt:
  "sublist (join nl (map (\<lambda>rule. ''- '' @ rule) SECURITY_RULES)) (build_ai_input t c)"
  unfolding build_ai_input_def Let_def
  by (rule sublist_join) (simp only: list.set insert_iff simp_thms)

lemma caller_line_in_prompt:
  "sublist (nl @ (''- Caller ID: '' @ str_or (caller_id c) ''Unknown'') @ nl) (build_ai_input t c)"
  unfolding build_ai_input_def Let_def
  by (rule line_in_join[where i = 8]) simp_all

lemma build_ai_input_caller_id:
  "str_or (caller_id c) ''Unknown'' = str_or (caller_id c') ''Unknown'' \<Longrightarrow>
   call_type c = call_type c' \<Longrightarrow> user_age c = user_age c' \<Longrightarrow>
   build_ai_input t c = build_ai_input t c'"
  unfolding build_ai_input_def Let_def by (simp only:)

text \<open>
  C2: for every transcript and every context, the prompt contains the transcript
  verbatim as a contiguous substring, and every string of the security-rules
  catalog as a contiguous substring.
\<close>

theorem prompt_contains_transcript_and_rules:
  "sublist t (build_ai_input t c) \<and>
   (\<forall>r \<in> set SECURITY_RULES. sublist r (build_ai_input t c))"
proof (intro conjI ballI)
  have "sublist t (''\"\"\"'' @ t @ ''\"\"\"'')" by (rule sublist_appendI)
  then show "sublist t (build_ai_input t c)"
    using transcript_line_in_prompt by (rule sublist_chain)
next
  fix r assume "r \<in> set SECURITY_RULES"
  then have "''- '' @ r \<in> set (map (\<lambda>rule. ''- '' @ rule) SECURITY_RULES)"
    by (simp only: set_map image_eqI[OF refl])
  then have "sublist (''- '' @ r) (join nl (map (\<lambda>rule. ''- '' @ rule) SECURITY_RULES))"
    by (rule sublist_join)
  then have "sublist (''- '' @ r) (build_ai_input t c)"
    using rules_text_in_prompt by (rule sublist_chain)
  moreover have "sublist r (''- '' @ r)" by (rule sublist_append_leftI)
  ultimately show "sublist r (build_ai_input t c)" by (rule sublist_chain[rotated])
qed

theorem prompt_contains_transcript_and_rules_witness:
  "sublist ''Hello, this is your bank, please confirm your PIN''
     (build_ai_input ''Hello, this is your bank, please confirm your PIN''
        (new_CallContext (Some ''+353 83 123 4567'') None None)) \<and>
   ''If the caller asks the user to install remote access software, classify as HIGH RISK.''
     \<in> set SECURITY_RULES \<and>
   sublist ''If the caller asks the user to install remote access software, classify as HIGH RISK.''
     (build_ai_input ''Hello, this is your bank, please confirm your PIN''
        (new_CallContext (Some ''+353 83 123 4567'') None None))"
proof -
  have m: "''If the caller asks the user to install remote access software, classify as HIGH RISK.''
      \<in> set SECURITY_RULES"
    by (simp add: SECURITY_RULES_def)
  note p = prompt_contains_transcript_and_rules
    [of "''Hello, this is your bank, please confirm your PIN''"
        "new_CallContext (Some ''+353 83 123 4567'') None None"]
  show ?thesis
    by (intro conjI) (rule p[THEN conjunct1], rule m, rule p[THEN conjunct2, THEN bspec, OF m])
qed

lemma str_or_falsy: "x = None \<or> x = Some [] \<Longrightarrow> str_or x d = d"
  by (auto simp: str_or_def)

lemma unknown_caller_line:
  assumes "str_or (caller_id c) ''Unknown'' = ''Unknown''"
  shows "sublist (nl @ ''- Caller ID: Unknown'' @ nl) (build_ai_input t c)"
    and "build_ai_input t c = build_ai_input t (c\<lparr>caller_id := Some ''Unknown''\<rparr>)"
proof -
  have "''- Caller ID: '' @ str_or (caller_id c) ''Unknown'' = ''- Caller ID: Unknown''"
    by (simp add: assms)
  with caller_line_in_prompt[of c t]
  show "sublist (nl @ ''- Caller ID: Unknown'' @ nl) (build_ai_input t c)"
    by (simp only:)
next
  have "str_or (caller_id (c\<lparr>caller_id := Some ''Unknown''\<rparr>)) ''Unknown'' = ''Unknown''"
    by (simp add: str_or_def)
  with assms show "build_ai_input t c = build_ai_input t (c\<lparr>caller_id := Some ''Unknown''\<rparr>)"
    by (intro build_ai_input_caller_id) simp_all
qed

text \<open>
  C8: when the caller identifier is absent (\<open>None\<close>), the prompt has the line
  \<open>- Caller ID: Unknown\<close>, and is the very prompt built for a caller identifier
  that is the text \<open>Unknown\<close>.
\<close>

theorem absent_caller_id_renders_unknown:
  assumes "caller_id c = None"
  shows "sublist (nl @ ''- Caller ID: Unknown'' @ nl) (build_ai_input t c) \<and>
         build_ai_input t c = build_ai_input t (c\<lparr>caller_id := Some ''Unknown''\<rparr>)"
proof -
  have "str_or (caller_id c) ''Unknown'' = ''Unknown''"
    using assms by (intro str_or_falsy) simp
  then show ?thesis
    by (intro conjI unknown_caller_line)
qed

theorem absent_caller_id_renders_unknown_witness:
  "caller_id (new_CallContext None (Some ''incoming'') None) = None \<and>
   sublist (nl @ ''- Caller ID: Unknown'' @ nl)
     (build_ai_input ''Hello'' (new_CallContext None (Some ''incoming'') None)) \<and>
   build_ai_input ''Hello'' (new_CallContext None (Some ''incoming'') None) =
     build_ai_input ''Hello''
       ((new_CallContext None (Some ''incoming'') None)\<lparr>caller_id := Some ''Unknown''\<rparr>)"
proof -
  have h: "caller_id (new_CallContext None (Some ''incoming'') None) = None"
    by (simp add: new_CallContext_def)
  show ?thesis
    by (rule conjI[OF h absent_caller_id_renders_unknown[OF h]])
qed

text \<open>
  C10: a caller identifier that is present but empty is rendered like an absent
  one: the prompt has the line \<open>- Caller ID: Unknown\<close>, is the very prompt built
  for a caller identifier that is the text \<open>Unknown\<close>, and is the very prompt
  built for an absent caller identifier.
\<close>

theorem empty_caller_id_renders_unknown:
  assumes "caller_id c = Some ''''"
  shows "sublist (nl @ ''- Caller ID: Unknown'' @ nl) (build_ai_input t c) \<and>
         build_ai_input t c = build_ai_input t (c\<lparr>caller_id := Some ''Unknown''\<rparr>) \<and>
         build_ai_input t c = build_ai_input t (c\<lparr>caller_id := None\<rparr>)"
proof -
  have u: "str_or (caller_id c) ''Unknown'' = ''Unknown''"
    using assms by (intro str_or_falsy) simp
  have "str_or (caller_id (c\<lparr>caller_id := None\<rparr>)) ''Unknown'' = ''Unknown''"
    by (simp add: str_or_def)
  with u have "build_ai_input t c = build_ai_input t (c\<lparr>caller_id := None\<rparr>)"
    by (intro build_ai_input_caller_id) simp_all
  then show ?thesis
    by (intro conjI unknown_caller_line[OF u])
qed

theorem empty_caller_id_renders_unknown_witness:
  "caller_id (new_CallContext (Some '''') (Some ''missed'') (Some 81)) = Some '''' \<and>
   sublist (nl @ ''- Caller ID: Unknown'' @ nl)
     (build_ai_input ''Hi'' (new_CallContext (Some '''') (Some ''missed'') (Some 81))) \<and>
   build_ai_input ''Hi'' (new_CallContext (Some '''') (Some ''missed'') (Some 81)) =
     build_ai_input ''Hi''
       ((new_CallContext (Some '''') (Some ''missed'') (Some 81))\<lparr>caller_id := Some ''Unknown''\<rparr>) \<and>
   build_ai_input ''Hi'' (new_CallContext (Some '''') (Some ''missed'') (Some 81)) =
     build_ai_input ''Hi''
       ((new_CallContext (Some '''') (Some ''missed'') (Some 81))\<lparr>caller_id := None\<rparr>)"
proof -
  have h: "caller_id (new_CallContext (Some '''') (Some ''missed'') (Some 81)) = Some ''''"
    by (simp add: new_CallContext_def)
  show ?thesis
    by (rule conjI[OF h empty_caller_id_renders_unknown[OF h]])
qed

text \<open>Where a part sits in a chain of concatenations, whatever is put before it.\<close>

lemma shift_prefix:
  assumes "\<exists>pre post. \<forall>t. g t = pre @ m t @ post"
  shows "\<exists>pre post. \<forall>t. a @ g t = pre @ m t @ post"
proof -
  from assms obtain pre post where "\<forall>t. g t = pre @ m t @ post" by blast
  then have "\<forall>t. a @ g t = (a @ pre) @ m t @ post" by simp
  then show ?thesis by blast
qed

lemma transcript_position:
  "\<exists>pre post. \<forall>t. build_ai_input t c = pre @ (''\"\"\"'' @ t @ ''\"\"\"'') @ post"
  unfolding build_ai_input_def Let_def join.simps
  apply (rule shift_prefix)+
  apply (rule exI[of _ "[]"])
  apply (rule exI)
  apply (rule allI)
  apply (simp only: append_Nil)
  done

subsection \<open>The builder as a call\<close>

text \<open>A number that reaches \<open>10 ^ k\<close> has more than \<open>k\<close> decimal digits.\<close>

lemma str_nat_length: "10 ^ k \<le> n \<Longrightarrow> k < length (str_nat n)"
proof (induction k arbitrary: n)
  case 0
  show ?case by (subst str_nat.simps) (simp del: str_nat.simps)
next
  case (Suc k)
  from Suc.prems have a: "10 * 10 ^ k \<le> n" by simp
  have "(1::nat) \<le> 10 ^ k" by simp
  with a have ge: "\<not> n < 10" by linarith
  from a have "10 ^ k \<le> n div 10" by simp
  then have "k < length (str_nat (n div 10))" by (rule Suc.IH)
  with ge show ?case by (subst str_nat.simps) (simp del: str_nat.simps)
qed

lemma int_digits_power: "k < int_digits (10 ^ k)"
proof -
  have "nat \<bar>10 ^ k :: int\<bar> = 10 ^ k" by (simp add: nat_power_eq)
  then show ?thesis unfolding int_digits_def by (simp only: str_nat_length[OF order_refl])
qed

lemma int_digits_default_age: "int_digits 79 = 2"
  unfolding int_digits_def by code_simp

lemma build_ai_input_call_returns:
  "int_digits (user_age c) \<le> INT_MAX_STR_DIGITS \<Longrightarrow>
   build_ai_input_call w t c = (Inr (build_ai_input t c), w)"
  by (simp add: build_ai_input_call_def format_int_def)

lemma build_ai_input_call_raises:
  "INT_MAX_STR_DIGITS < int_digits (user_age c) \<Longrightarrow>
   build_ai_input_call w t c = (Inl ValueError, w)"
  by (simp add: build_ai_input_call_def format_int_def)

lemma snd_build_ai_input_call: "snd (build_ai_input_call w t c) = w"
  by (simp add: build_ai_input_call_def split: sum.split)

lemma fst_build_ai_input_call:
  "fst (build_ai_input_call w' t c) = fst (build_ai_input_call w t c)"
  by (simp add: build_ai_input_call_def split: sum.split)

lemma build_ai_input_call_screened:
  "build_ai_input_call w t (screened_context cid ct) =
     (Inr (build_ai_input t (screened_context cid ct)), w)"
  by (rule build_ai_input_call_returns)
     (simp add: screened_context_def new_CallContext_def int_digits_default_age
        INT_MAX_STR_DIGITS_def)

text \<open>
  C6, as the claim states it, fails: a context whose age is \<open>10 ^ 4300\<close>, a number
  of 4301 digits, makes the call raise \<open>ValueError\<close> instead of returning a prompt.
\<close>

theorem build_ai_input_huge_age_raises:
  "fst (build_ai_input_call empty_world ''Hello''
          \<lparr>caller_id = None, call_type = ''incoming'', user_age = 10 ^ 4300\<rparr>) = Inl ValueError"
proof -
  have "INT_MAX_STR_DIGITS < int_digits (10 ^ 4300)"
    unfolding INT_MAX_STR_DIGITS_def by (rule int_digits_power)
  then have "INT_MAX_STR_DIGITS <
      int_digits (user_age \<lparr>caller_id = None, call_type = ''incoming'', user_age = 10 ^ 4300\<rparr>)"
    by (simp only: CallContext.select_convs)
  then show ?thesis
    by (simp only: build_ai_input_call_raises fst_conv)
qed

text \<open>
  C6, amended: for every transcript (the empty one and one made of the prompt's
  own delimiters included) and every context whose age has at most 4300 decimal
  digits, a call of the prompt builder returns the prompt and does not raise; for
  an age of more digits it raises \<open>ValueError\<close>. In both cases the call leaves the
  world as it found it (nothing printed, no file written, no external call, no
  object changed), and what it returns or raises is the same in every world: two
  calls with equal transcript and context have equal outcomes.
\<close>

theorem build_ai_input_call_pure:
  "(int_digits (user_age c) \<le> INT_MAX_STR_DIGITS \<longrightarrow>
      build_ai_input_call w t c = (Inr (build_ai_input t c), w)) \<and>
   (INT_MAX_STR_DIGITS < int_digits (user_age c) \<longrightarrow>
      build_ai_input_call w t c = (Inl ValueError, w)) \<and>
   snd (build_ai_input_call w t c) = w \<and>
   fst (build_ai_input_call w' t c) = fst (build_ai_input_call w t c)"
  by (intro conjI impI)
     (erule build_ai_input_call_returns, erule build_ai_input_call_raises,
      rule snd_build_ai_input_call, rule fst_build_ai_input_call)

theorem build_ai_input_call_pure_witness:
  "int_digits (user_age (new_CallContext None None None)) \<le> INT_MAX_STR_DIGITS \<and>
   build_ai_input_call empty_world ''\"\"\"'' (new_CallContext None None None) =
     (Inr (build_ai_input ''\"\"\"'' (new_CallContext None None None)), empty_world) \<and>
   build_ai_input_call empty_world [] (new_CallContext None None None) =
     (Inr (build_ai_input [] (new_CallContext None None None)), empty_world) \<and>
   INT_MAX_STR_DIGITS <
     int_digits (user_age \<lparr>caller_id = None, call_type = ''incoming'', user_age = - (10 ^ 4300)\<rparr>) \<and>
   build_ai_input_call empty_world ''Hello''
       \<lparr>caller_id = None, call_type = ''incoming'', user_age = - (10 ^ 4300)\<rparr> =
     (Inl ValueError, empty_world) \<and>
   snd (build_ai_input_call empty_world ''\"\"\"'' (new_CallContext None None None)) = empty_world \<and>
   fst (build_ai_input_call (print [PStr ''ringing''] empty_world) ''\"\"\"''
          (new_CallContext None None None)) =
     fst (build_ai_input_call empty_world ''\"\"\"'' (new_CallContext None None None))"
proof -
  let ?c = "new_CallContext None None None"
  let ?big = "\<lparr>caller_id = None, call_type = ''incoming'', user_age = - (10 ^ 4300)\<rparr>"
  have h1: "int_digits (user_age ?c) \<le> INT_MAX_STR_DIGITS"
    by (simp add: new_CallContext_def int_digits_default_age INT_MAX_STR_DIGITS_def)
  have "int_digits (- (10 ^ 4300)) = int_digits (10 ^ 4300)"
    unfolding int_digits_def by (simp only: abs_minus_cancel)
  moreover have "INT_MAX_STR_DIGITS < int_digits (10 ^ 4300)"
    unfolding INT_MAX_STR_DIGITS_def by (rule int_digits_power)
  ultimately have h2: "INT_MAX_STR_DIGITS < int_digits (user_age ?big)"
    by (simp only: CallContext.select_convs)
  note p = build_ai_input_call_pure[of ?c empty_world "''\"\"\"''" "print [PStr ''ringing''] empty_world"]
  note q = build_ai_input_call_pure[of ?c empty_world "[]" empty_world]
  note r = build_ai_input_call_pure[of ?big empty_world "''Hello''" empty_world]
  show ?thesis
    by (intro conjI)
       (rule h1, rule p[THEN conjunct1, THEN mp, OF h1], rule q[THEN conjunct1, THEN mp, OF h1],
        rule h2, rule r[THEN conjunct2, THEN conjunct1, THEN mp, OF h2],
        rule p[THEN conjunct2, THEN conjunct2, THEN conjunct1],
        rule p[THEN conjunct2, THEN conjunct2, THEN conjunct2])
qed

subsection \<open>Playback\<close>

lemma calls_invoke: "calls (snd (invoke e w c)) = calls w @ [c]"
  by (simp add: invoke_def issue_def)

text \<open>
  C5: the playback invoker issues exactly one external call, chosen by the
  operating system's name: \<open>afplay\<close> through \<open>subprocess.run\<close> for \<open>Darwin\<close>,
  \<open>os.startfile\<close> for \<open>Windows\<close>, \<open>xdg-open\<close> through \<open>subprocess.run\<close> for every
  other name. The three calls differ from one another.
\<close>

theorem play_audio_dispatch:
  "(platform_system e = ''Darwin'' \<longrightarrow>
      calls (snd (play_audio e w p)) = calls w @ [Subprocess_run [''afplay'', p]]) \<and>
   (platform_system e = ''Windows'' \<longrightarrow>
      calls (snd (play_audio e w p)) = calls w @ [Os_startfile p]) \<and>
   (platform_system e \<noteq> ''Darwin'' \<and> platform_system e \<noteq> ''Windows'' \<longrightarrow>
      calls (snd (play_audio e w p)) = calls w @ [Subprocess_run [''xdg-open'', p]]) \<and>
   distinct [Subprocess_run [''afplay'', p], Os_startfile p, Subprocess_run [''xdg-open'', p]]"
  by (simp add: play_audio_def calls_invoke)

theorem play_audio_dispatch_witness:
  "calls (snd (play_audio (stub_env ''[]'' ''Darwin'') empty_world ''/srv/screener/a.mp3'')) =
     [Subprocess_run [''afplay'', ''/srv/screener/a.mp3'']] \<and>
   calls (snd (play_audio (stub_env ''[]'' ''Windows'') empty_world ''/srv/screener/a.mp3'')) =
     [Os_startfile ''/srv/screener/a.mp3''] \<and>
   calls (snd (play_audio (stub_env ''[]'' ''Linux'') empty_world ''/srv/screener/a.mp3'')) =
     [Subprocess_run [''xdg-open'', ''/srv/screener/a.mp3'']]"
proof (intro conjI)
  have "platform_system (stub_env ''[]'' ''Darwin'') = ''Darwin''"
    by (simp add: stub_env_def)
  with play_audio_dispatch[of "stub_env ''[]'' ''Darwin''" empty_world "''/srv/screener/a.mp3''"]
  show "calls (snd (play_audio (stub_env ''[]'' ''Darwin'') empty_world ''/srv/screener/a.mp3'')) =
     [Subprocess_run [''afplay'', ''/srv/screener/a.mp3'']]"
    by (simp add: empty_world_def)
next
  have "platform_system (stub_env ''[]'' ''Windows'') = ''Windows''"
    by (simp add: stub_env_def)
  with play_audio_dispatch[of "stub_env ''[]'' ''Windows''" empty_world "''/srv/screener/a.mp3''"]
  show "calls (snd (play_audio (stub_env ''[]'' ''Windows'') empty_world ''/srv/screener/a.mp3'')) =
     [Os_startfile ''/srv/screener/a.mp3'']"
    by (simp add: empty_world_def)
next
  have "platform_system (stub_env ''[]'' ''Linux'') \<noteq> ''Darwin'' \<and>
        platform_system (stub_env ''[]'' ''Linux'') \<noteq> ''Windows''"
    by (simp add: stub_env_def)
  with play_audio_dispatch[of "stub_env ''[]'' ''Linux''" empty_world "''/srv/screener/a.mp3''"]
  show "calls (snd (play_audio (stub_env ''[]'' ''Linux'') empty_world ''/srv/screener/a.mp3'')) =
     [Subprocess_run [''xdg-open'', ''/srv/screener/a.mp3'']]"
    by (simp add: empty_world_def)
qed

subsection \<open>Speech synthesis\<close>

lemma speak_with_openai_fst:
  "fst (speak_with_openai e w txt (Some f)) =
     (case speech_stream e txt (joinpath e (module_dir e) f) of
        Streamed audio \<Rightarrow> Inr (joinpath e (module_dir e) f)
      | Failed x part \<Rightarrow> Inl x)"
  by (simp add: speak_with_openai_def Let_def split: tts_outcome.split option.split)

lemma speak_with_openai_default:
  "speak_with_openai e w txt None = speak_with_openai e w txt (Some ''call_response.mp3'')"
  by (simp add: speak_with_openai_def DEFAULT_FILENAME_def)

lemma speak_with_openai_returns:
  assumes "speak_with_openai e w txt (Some f) = (Inr p, w')"
  shows "p = joinpath e (module_dir e) f \<and>
         (\<exists>a. speech_stream e txt p = Streamed a \<and> files w' p = Some a)"
  using assms
  by (auto simp: speak_with_openai_def Let_def split: tts_outcome.splits option.splits)

text \<open>
  C7: the speech synthesizer returns the program's directory joined with the
  file name, exactly when the speech request and the write do not raise, and
  the audio is then the content of that file. With no file name given it
  behaves as for \<open>call_response.mp3\<close>. Two successive runs without a file name,
  in the same directory, return the same path, and after the second run the
  file holds the second run's audio.
\<close>

theorem speak_with_openai_path:
  "fst (speak_with_openai e w txt (Some f)) =
     (case speech_stream e txt (joinpath e (module_dir e) f) of
        Streamed audio \<Rightarrow> Inr (joinpath e (module_dir e) f)
      | Failed x part \<Rightarrow> Inl x) \<and>
   (\<forall>audio. speech_stream e txt (joinpath e (module_dir e) f) = Streamed audio \<longrightarrow>
      files (snd (speak_with_openai e w txt (Some f))) (joinpath e (module_dir e) f) = Some audio) \<and>
   speak_with_openai e w txt None = speak_with_openai e w txt (Some ''call_response.mp3'') \<and>
   (\<forall>p1 w1 p2 w2.
      speak_with_openai e w txt None = (Inr p1, w1) \<and>
      speak_with_openai e' w1 txt' None = (Inr p2, w2) \<and>
      module_dir e' = module_dir e \<and> joinpath e' = joinpath e \<longrightarrow>
      p1 = joinpath e (module_dir e) ''call_response.mp3'' \<and> p2 = p1 \<and>
      (\<exists>a1 a2. speech_stream e txt p1 = Streamed a1 \<and> files w1 p1 = Some a1 \<and>
               speech_stream e' txt' p1 = Streamed a2 \<and> files w2 p1 = Some a2))"
proof (intro conjI allI impI)
  show "fst (speak_with_openai e w txt (Some f)) =
     (case speech_stream e txt (joinpath e (module_dir e) f) of
        Streamed audio \<Rightarrow> Inr (joinpath e (module_dir e) f)
      | Failed x part \<Rightarrow> Inl x)"
    by (rule speak_with_openai_fst)
next
  fix audio
  assume "speech_stream e txt (joinpath e (module_dir e) f) = Streamed audio"
  then show "files (snd (speak_with_openai e w txt (Some f))) (joinpath e (module_dir e) f) = Some audio"
    by (simp add: speak_with_openai_def Let_def)
next
  show "speak_with_openai e w txt None = speak_with_openai e w txt (Some ''call_response.mp3'')"
    by (rule speak_with_openai_default)
next
  fix p1 w1 p2 w2
  assume a: "speak_with_openai e w txt None = (Inr p1, w1) \<and>
      speak_with_openai e' w1 txt' None = (Inr p2, w2) \<and>
      module_dir e' = module_dir e \<and> joinpath e' = joinpath e"
  from a have r1: "speak_with_openai e w txt (Some ''call_response.mp3'') = (Inr p1, w1)"
    by (simp add: speak_with_openai_default)
  from a have r2: "speak_with_openai e' w1 txt' (Some ''call_response.mp3'') = (Inr p2, w2)"
    by (simp add: speak_with_openai_default)
  note s1 = speak_with_openai_returns[OF r1] and s2 = speak_with_openai_returns[OF r2]
  from s1 show p1: "p1 = joinpath e (module_dir e) ''call_response.mp3''" by simp
  from s2 a p1 show p2: "p2 = p1" by simp
  from s1 s2 p2 show "\<exists>a1 a2. speech_stream e txt p1 = Streamed a1 \<and> files w1 p1 = Some a1 \<and>
               speech_stream e' txt' p1 = Streamed a2 \<and> files w2 p1 = Some a2"
    by auto
qed

theorem speak_with_openai_path_witness:
  "fst (speak_with_openai (stub_env ''[]'' ''Linux'') empty_world (JStr ''one'') (Some ''reply.mp3'')) =
     Inr ''/srv/screener/reply.mp3'' \<and>
   files (snd (speak_with_openai (stub_env ''[]'' ''Linux'') empty_world (JStr ''one'') (Some ''reply.mp3'')))
     ''/srv/screener/reply.mp3'' = Some ''ID3one'' \<and>
   fst (speak_with_openai (stub_env ''[]'' ''Linux'') empty_world (JStr ''one'') None) =
     Inr ''/srv/screener/call_response.mp3'' \<and>
   files (snd (speak_with_openai (stub_env ''[]'' ''Linux'') empty_world (JStr ''one'') None))
     ''/srv/screener/call_response.mp3'' = Some ''ID3one'' \<and>
   fst (speak_with_openai (stub_env ''[]'' ''Darwin'')
          (snd (speak_with_openai (stub_env ''[]'' ''Linux'') empty_world (JStr ''one'') None))
          (JStr ''two'') None) =
     Inr ''/srv/screener/call_response.mp3'' \<and>
   files (snd (speak_with_openai (stub_env ''[]'' ''Darwin'')
          (snd (speak_with_openai (stub_env ''[]'' ''Linux'') empty_world (JStr ''one'') None))
          (JStr ''two'') None))
     ''/srv/screener/call_response.mp3'' = Some ''ID3two''"
proof -
  let ?e = "stub_env ''[]'' ''Linux''" and ?e' = "stub_env ''[]'' ''Darwin''"
  let ?r1 = "speak_with_openai ?e empty_world (JStr ''one'') None"
  let ?r2 = "speak_with_openai ?e' (snd ?r1) (JStr ''two'') None"
  have s: "speech_stream ?e (JStr ''one'') (joinpath ?e (module_dir ?e) ''reply.mp3'') = Streamed ''ID3one''"
    by (simp add: stub_env_def)
  have j: "joinpath ?e (module_dir ?e) ''reply.mp3'' = ''/srv/screener/reply.mp3''"
    by (simp add: stub_env_def)
  have d: "joinpath ?e (module_dir ?e) ''call_response.mp3'' = ''/srv/screener/call_response.mp3''"
    by (simp add: stub_env_def)
  have f1: "fst ?r1 = Inr ''/srv/screener/call_response.mp3''"
    by (simp add: speak_with_openai_fst speak_with_openai_default stub_env_def)
  have f2: "fst ?r2 = Inr ''/srv/screener/call_response.mp3''"
    by (simp add: speak_with_openai_fst speak_with_openai_default stub_env_def)
  have h: "?r1 = (Inr ''/srv/screener/call_response.mp3'', snd ?r1) \<and>
           ?r2 = (Inr ''/srv/screener/call_response.mp3'', snd ?r2) \<and>
           module_dir ?e' = module_dir ?e \<and> joinpath ?e' = joinpath ?e"
    using f1 f2 by (simp add: prod_eq_iff stub_env_def)
  note t = speak_with_openai_path[of ?e empty_world "JStr ''one''" "''reply.mp3''" ?e' "JStr ''two''"]
  from t[THEN conjunct1] s j
  have c1: "fst (speak_with_openai ?e empty_world (JStr ''one'') (Some ''reply.mp3'')) =
      Inr ''/srv/screener/reply.mp3''"
    by simp
  from t[THEN conjunct2, THEN conjunct1, THEN spec, THEN mp, OF s] j
  have c2: "files (snd (speak_with_openai ?e empty_world (JStr ''one'') (Some ''reply.mp3'')))
      ''/srv/screener/reply.mp3'' = Some ''ID3one''"
    by simp
  from t[THEN conjunct2, THEN conjunct2, THEN conjunct2, THEN spec, THEN spec, THEN spec,
         THEN spec, THEN mp, OF h]
  obtain a1 a2 where
    o: "speech_stream ?e (JStr ''one'') ''/srv/screener/call_response.mp3'' = Streamed a1"
       "files (snd ?r1) ''/srv/screener/call_response.mp3'' = Some a1"
       "speech_stream ?e' (JStr ''two'') ''/srv/screener/call_response.mp3'' = Streamed a2"
       "files (snd ?r2) ''/srv/screener/call_response.mp3'' = Some a2"
    by blast
  from o(1) have "a1 = ''ID3one''" by (simp add: stub_env_def)
  moreover from o(3) have "a2 = ''ID3two''" by (simp add: stub_env_def)
  ultimately show ?thesis using c1 c2 f1 f2 o(2) o(4) by simp
qed

subsection \<open>The context object\<close>

lemma objs_print: "objs (print a w) = objs w"
  by (simp add: print_def)

lemma objs_issue: "objs (issue c w) = objs w"
  by (simp add: issue_def)

lemma objs_send_to_openai: "objs (snd (send_to_openai e w p)) = objs w"
  by (simp add: send_to_openai_def objs_issue)

lemma objs_build_ai_input_call: "objs (snd (build_ai_input_call w t c)) = objs w"
  by (simp only: snd_build_ai_input_call)

lemma objs_parse_response: "objs (snd (parse_response e w txt)) = objs w"
  by (simp add: parse_response_def objs_print split: sum.split)

lemma objs_speak_with_openai: "objs (snd (speak_with_openai e w v f)) = objs w"
  by (simp add: speak_with_openai_def Let_def objs_issue split: tts_outcome.split option.split)

lemma objs_play_audio: "objs (snd (play_audio e w p)) = objs w"
  by (simp add: play_audio_def Let_def invoke_def objs_issue)

lemma objs_screen_mock_call:
  "objs (snd (screen_mock_call e w t cid ct)) = objs w @ [screened_context cid ct]"
proof -
  let ?w1 = "w\<lparr>objs := objs w @ [screened_context cid ct]\<rparr>"
  let ?p = "build_ai_input t (screened_context cid ct)"
  have c: "objs ?w1 ! length (objs w) = screened_context cid ct"
    by simp
  have s: "snd (send_to_openai e ?w1 ?p) = issue (Responses_create ''gpt-5.1'' BASE_INSTRUCTIONS ?p) ?w1"
    by (simp add: send_to_openai_def)
  show ?thesis
    unfolding screen_mock_call_def Let_def screened_context_def[symmetric] c
      build_ai_input_call_screened
    by (cases "send_to_openai e ?w1 ?p")
       (use s in \<open>auto simp: objs_print objs_issue objs_parse_response objs_speak_with_openai
          objs_play_audio split: sum.splits prod.splits
          dest!: arg_cong[where f = "\<lambda>r. objs (snd r)"]\<close>)
qed

text \<open>
  C9: no operation of the program changes a \<open>CallContext\<close> once it is in the
  store. The classification request, the parser, the speech synthesizer and the
  playback invoker leave the store as it is; a whole run of the pipeline adds the
  one context it constructs, which still has the fields it was constructed with
  when the run ends, and changes no context allocated before. A call of the
  prompt builder reads the context it is given and leaves the store as it is.
\<close>

theorem call_context_never_modified:
  "objs (snd (build_ai_input_call w t c)) = objs w \<and>
   objs (snd (send_to_openai e w p)) = objs w \<and>
   objs (snd (parse_response e w txt)) = objs w \<and>
   objs (snd (speak_with_openai e w v f)) = objs w \<and>
   objs (snd (play_audio e w p)) = objs w \<and>
   objs (snd (screen_mock_call e w t cid ct)) = objs w @ [new_CallContext cid
      (Some (case ct of None \<Rightarrow> ''incoming'' | Some x \<Rightarrow> x)) None]"
  by (simp only: objs_build_ai_input_call objs_send_to_openai objs_parse_response objs_speak_with_openai objs_play_audio
        objs_screen_mock_call screened_context_def simp_thms)

subsection \<open>The pipeline\<close>

lemma calls_print: "calls (print a w) = calls w"
  by (simp add: print_def)

lemma calls_issue: "calls (issue c w) = calls w @ [c]"
  by (simp add: issue_def)

lemma calls_parse_response: "calls (snd (parse_response e w txt)) = calls w"
  by (simp add: parse_response_def calls_print split: sum.split)

text \<open>What the parsing step returns or raises does not depend on the world.\<close>

lemma fst_parse_response:
  "fst (parse_response e w txt) =
     (case json_loads e txt of
        Inr result \<Rightarrow> Inr result
      | Inl x \<Rightarrow> if x = JSONDecodeError
                 then Inr (JObj (Map.empty(SPOKEN_KEY \<mapsto> JStr FALLBACK_LINE)))
                 else Inl x)"
  by (simp add: parse_response_def split: sum.split)

text \<open>An exception of the decoder other than its decode error is not caught.\<close>

lemma parse_response_propagates:
  "json_loads e txt = Inl x \<Longrightarrow> x \<noteq> JSONDecodeError \<Longrightarrow> parse_response e w txt = (Inl x, w)"
  by (simp add: parse_response_def)

lemma calls_speak_with_openai:
  "calls (snd (speak_with_openai e w v f)) =
     calls w @ [Speech_create ''gpt-4o-mini-tts'' ''alloy'' v ''Speak clearly, calmly, and politely.'']"
  by (simp add: speak_with_openai_def Let_def calls_issue split: tts_outcome.split option.split)

lemma speech_inputs_append: "speech_inputs (xs @ ys) = speech_inputs xs @ speech_inputs ys"
  by (simp add: speech_inputs_def map_filter_def)

lemma speech_inputs_Nil: "speech_inputs [] = []"
  by (simp add: speech_inputs_def map_filter_def)

lemma speech_inputs_Cons:
  "speech_inputs (c # cs) =
     (case speech_input c of None \<Rightarrow> speech_inputs cs | Some i \<Rightarrow> i # speech_inputs cs)"
  by (simp add: speech_inputs_def map_filter_def split: option.split)

lemma speech_inputs_play_audio:
  "speech_inputs (calls (snd (play_audio e w p))) = speech_inputs (calls w)"
  by (simp add: play_audio_def Let_def calls_invoke speech_inputs_append speech_inputs_Nil speech_inputs_Cons)

text \<open>
  The run after the classification service has answered: what is raised, and which
  inputs reach the speech service, in terms of the outcome of the parsing step and
  of the line selected from its result.
\<close>

lemma screen_mock_call_selected:
  assumes "responses_create e ''gpt-5.1'' BASE_INSTRUCTIONS
             (build_ai_input t (screened_context cid ct)) = Inr txt"
  shows "case fst (parse_response e w txt) of
           Inl x \<Rightarrow> fst (screen_mock_call e w t cid ct) = Inl x \<and>
                    speech_inputs (calls (snd (screen_mock_call e w t cid ct))) =
                      speech_inputs (calls w)
         | Inr r \<Rightarrow>
            (case py_get r SPOKEN_KEY (JStr FALLBACK_LINE) of
               Inl x \<Rightarrow> fst (screen_mock_call e w t cid ct) = Inl x \<and>
                        speech_inputs (calls (snd (screen_mock_call e w t cid ct))) =
                          speech_inputs (calls w)
             | Inr v \<Rightarrow> speech_inputs (calls (snd (screen_mock_call e w t cid ct))) =
                          speech_inputs (calls w) @ [v])"
proof -
  let ?w1 = "w\<lparr>objs := objs w @ [screened_context cid ct]\<rparr>"
  let ?w5 = "print [PStr (''================================'' @ nl)]
                (print [PStr txt]
                  (print [PStr (nl @ ''===== RAW AI RESPONSE TEXT ====='')]
                    (issue (Responses_create ''gpt-5.1'' BASE_INSTRUCTIONS
                       (build_ai_input t (screened_context cid ct))) ?w1)))"
  have c: "objs ?w1 ! length (objs w) = screened_context cid ct"
    by simp
  have f: "fst (parse_response e ?w5 txt) = fst (parse_response e w txt)"
    by (simp only: fst_parse_response)
  note unfold = screen_mock_call_def Let_def screened_context_def[symmetric] c
    build_ai_input_call_screened send_to_openai_def case_prod_beta
  note log = calls_print calls_issue calls_parse_response calls_speak_with_openai
    speech_inputs_append speech_inputs_Nil speech_inputs_Cons speech_inputs_play_audio
  have w6: "speech_inputs (calls (snd (parse_response e ?w5 txt))) = speech_inputs (calls w)"
    by (simp add: log)
  show ?thesis
  proof (cases "fst (parse_response e w txt)")
    case (Inl x)
    with assms f w6 show ?thesis
      unfolding unfold by simp
  next
    case r: (Inr r)
    show ?thesis
    proof (cases "py_get r SPOKEN_KEY (JStr FALLBACK_LINE)")
      case (Inl x)
      with assms f w6 r show ?thesis
        unfolding unfold by simp
    next
      case (Inr v)
      show ?thesis
      proof (cases "speak_with_openai e
          (print [PStr ''AI wants to say to the caller:'', PVal v]
             (snd (parse_response e ?w5 txt))) v None")
        case (Pair res w8)
        from Pair have c8: "speech_inputs (calls w8) = speech_inputs (calls w) @ [v]"
          by (auto dest!: arg_cong[where f = "\<lambda>r. speech_inputs (calls (snd r))"] simp: log)
        from assms f r Inr Pair c8 show ?thesis
          unfolding unfold by (cases res) (simp_all add: log)
      qed
    qed
  qed
qed






text \<open>
  The lookup on an object that lacks the key: the fallback line is selected and
  is what reaches the speech service.
\<close>

lemma missing_key_fallback:
  assumes "responses_create e ''gpt-5.1'' BASE_INSTRUCTIONS
             (build_ai_input t (screened_context cid ct)) = Inr txt"
    and "json_loads e txt = Inr (JObj d)"
    and "d ''spoken_response_to_caller'' = None"
  shows "speech_inputs (calls (snd (screen_mock_call e w t cid ct))) =
           speech_inputs (calls w) @ [JStr ''We cannot proceed with this call. Goodbye.'']"
proof -
  have f: "fst (parse_response e w txt) = Inr (JObj d)"
    using assms(2) by (simp add: fst_parse_response)
  have "py_get (JObj d) SPOKEN_KEY (JStr FALLBACK_LINE) =
      Inr (JStr ''We cannot proceed with this call. Goodbye.'')"
    using assms(3) by (simp add: py_get_def SPOKEN_KEY_def FALLBACK_LINE_def)
  with screen_mock_call_selected[OF assms(1), of w] f show ?thesis by simp
qed

text \<open>
  C4, on the code: when the classification output is well-formed JSON that is not
  an object (an array, a string, a number, a boolean, \<open>null\<close>), the lookup
  \<open>result.get\<close> raises \<open>AttributeError\<close>: the run ends with that exception and
  the speech service is never called, so no fallback line is selected.
\<close>

theorem non_object_json_raises:
  assumes "responses_create e ''gpt-5.1'' BASE_INSTRUCTIONS
             (build_ai_input t (screened_context cid ct)) = Inr txt"
    and "json_loads e txt = Inr r"
    and "\<forall>d. r \<noteq> JObj d"
  shows "fst (screen_mock_call e w t cid ct) = Inl AttributeError \<and>
         speech_inputs (calls (snd (screen_mock_call e w t cid ct))) = speech_inputs (calls w)"
proof -
  have f: "fst (parse_response e w txt) = Inr r"
    using assms(2) by (simp add: fst_parse_response)
  have "py_get r SPOKEN_KEY (JStr FALLBACK_LINE) = Inl AttributeError"
    using assms(3) by (cases r) (simp_all add: py_get_def)
  with screen_mock_call_selected[OF assms(1), of w] f show ?thesis by simp
qed

theorem non_object_json_raises_witness:
  "responses_create (stub_env ''[]'' ''Linux'') ''gpt-5.1'' BASE_INSTRUCTIONS
     (build_ai_input ''Hello, this is your bank, please confirm your PIN''
        (screened_context (Some ''+353 83 123 4567'') (Some ''incoming''))) = Inr ''[]'' \<and>
   json_loads (stub_env ''[]'' ''Linux'') ''[]'' = Inr (JArr []) \<and>
   fst (screen_mock_call (stub_env ''[]'' ''Linux'') empty_world
          ''Hello, this is your bank, please confirm your PIN''
          (Some ''+353 83 123 4567'') (Some ''incoming'')) = Inl AttributeError \<and>
   speech_inputs (calls (snd (screen_mock_call (stub_env ''[]'' ''Linux'') empty_world
          ''Hello, this is your bank, please confirm your PIN''
          (Some ''+353 83 123 4567'') (Some ''incoming'')))) = []"
proof -
  let ?e = "stub_env ''[]'' ''Linux''"
  have h1: "responses_create ?e ''gpt-5.1'' BASE_INSTRUCTIONS
      (build_ai_input ''Hello, this is your bank, please confirm your PIN''
        (screened_context (Some ''+353 83 123 4567'') (Some ''incoming''))) = Inr ''[]''"
    by (simp add: stub_env_def)
  have h2: "json_loads ?e ''[]'' = Inr (JArr [])"
    by (simp add: stub_env_def stub_loads_def)
  have h3: "\<forall>d. JArr [] \<noteq> JObj d"
    by simp
  have c: "speech_inputs (calls empty_world) = []"
    by (simp add: empty_world_def speech_inputs_Nil)
  from non_object_json_raises[OF h1 h2 h3, of empty_world] h1 h2 c
  show ?thesis by simp
qed

subsection \<open>Concrete runs\<close>

lemma str_int_examples:
  "str_int 79 = ''79''" "str_int 0 = ''0''" "str_int (- 105) = ''-105''"
  by code_simp+

lemma default_age_line:
  "sublist (nl @ ''- Age: 79 years old'' @ nl) (build_ai_input t (new_CallContext cid ct None))"
proof -
  have "''- Age: '' @ str_int (user_age (new_CallContext cid ct None)) @ '' years old'' =
        ''- Age: 79 years old''"
    by (simp add: new_CallContext_def str_int_examples)
  moreover have "sublist
      (nl @ (''- Age: '' @ str_int (user_age (new_CallContext cid ct None)) @ '' years old'') @ nl)
      (build_ai_input t (new_CallContext cid ct None))"
    unfolding build_ai_input_def Let_def
    by (rule line_in_join[where i = 4]) simp_all
  ultimately show ?thesis by (simp only:)
qed

text \<open>
  A reply that the decoder answers with an exception other than its decode error
  ends the run with that exception, before any speech request.
\<close>

lemma decoder_exception_ends_run:
  assumes "responses_create e ''gpt-5.1'' BASE_INSTRUCTIONS
             (build_ai_input t (screened_context cid ct)) = Inr txt"
    and "json_loads e txt = Inl x"
    and "x \<noteq> JSONDecodeError"
  shows "fst (screen_mock_call e w t cid ct) = Inl x \<and>
         speech_inputs (calls (snd (screen_mock_call e w t cid ct))) = speech_inputs (calls w)"
proof -
  have f: "fst (parse_response e w txt) = Inl x"
    using assms(2,3) by (simp add: fst_parse_response)
  from screen_mock_call_selected[OF assms(1), of w] f show ?thesis by simp
qed

lemma missing_key_example:
  \<open>speech_inputs (calls (snd (screen_mock_call
      (stub_env ''{"classification": "safe"}'' ''Linux'') empty_world
      ''Hello, this is your bank, please confirm your PIN''
      (Some ''+353 83 123 4567'') (Some ''incoming'')))) =
   [JStr ''We cannot proceed with this call. Goodbye.'']\<close>
proof -
  let ?reply = \<open>''{"classification": "safe"}''\<close>
  let ?e = "stub_env ?reply ''Linux''"
  have h1: "responses_create ?e ''gpt-5.1'' BASE_INSTRUCTIONS
      (build_ai_input ''Hello, this is your bank, please confirm your PIN''
        (screened_context (Some ''+353 83 123 4567'') (Some ''incoming''))) = Inr ?reply"
    by (simp add: stub_env_def)
  have h2: "json_loads ?e ?reply = Inr (JObj (Map.empty(''classification'' \<mapsto> JStr ''safe'')))"
    by (simp add: stub_env_def stub_loads_def)
  have h3: "(Map.empty(''classification'' \<mapsto> JStr ''safe'')) ''spoken_response_to_caller'' = None"
    by simp
  have c: "speech_inputs (calls empty_world) = []"
    by (simp add: empty_world_def speech_inputs_Nil)
  from missing_key_fallback[OF h1 h2 h3, of empty_world] c show ?thesis by simp
qed

end
